theory Spec2Isabelle
  imports Complex_Main
begin

section \<open>Python values and errors\<close>

text \<open>
  The repository is Python. Its floats are modelled as \<^typ>\<open>real\<close> (rounding, infinities,
  NaN and the sign of zero are not represented), its unbounded integers as \<^typ>\<open>int\<close>.
  Every exception the modelled code can raise is a constructor of \<open>py_error\<close>, and a method
  that can raise returns \<open>py_error + 'a\<close> with \<open>Inl\<close> for the exception.
\<close>

datatype py_error =
    ZeroDivisionError
  | NotImplementedError
  | AttributeError
  | ValueError
  | TypeError
  | UnboundLocalError
  | KeyError

definition then_do :: "py_error + 'a \<Rightarrow> ('a \<Rightarrow> py_error + 'b) \<Rightarrow> py_error + 'b" where
  "then_do r f = (case r of Inl e \<Rightarrow> Inl e | Inr x \<Rightarrow> f x)"

text \<open>Python's \<open>x / y\<close> on numbers: true division, raising on a zero divisor.\<close>

definition py_div :: "real \<Rightarrow> real \<Rightarrow> py_error + real" where
  "py_div x y = (if y = 0 then Inl ZeroDivisionError else Inr (x / y))"

text \<open>\<open>math.sqrt\<close> raises \<open>ValueError\<close> on a negative argument.\<close>

definition py_sqrt :: "real \<Rightarrow> py_error + real" where
  "py_sqrt x = (if x < 0 then Inl ValueError else Inr (sqrt x))"

text \<open>\<open>math.copysign(x, y)\<close>: the magnitude of \<open>x\<close> with the sign of \<open>y\<close>. A zero \<open>y\<close>
  counts as positive (the negative float zero has no counterpart in \<^typ>\<open>real\<close>).\<close>

definition copysign :: "real \<Rightarrow> real \<Rightarrow> real" where
  "copysign x y = (if y < 0 then - \<bar>x\<bar> else \<bar>x\<bar>)"

section \<open>chassis.py: the travel-time estimator of TestChassis\<close>

text \<open>\<open>TestChassis._will_hit_max_velocity\<close> (chassis.py:166) is a stub that raises.\<close>

definition will_hit_max_velocity :: "real \<Rightarrow> real \<Rightarrow> py_error + bool" where
  "will_hit_max_velocity current_velocity distance = Inl NotImplementedError"

text \<open>\<open>TestChassis._estimate_travel_time\<close> (chassis.py:144). The attributes
  \<open>self._max_velocity\<close> and \<open>self._max_acceleration\<close> are the first two arguments. The
  result is the pair \<open>(t_c, t_f)\<close>. The source's argument \<open>dist\<close> is \<open>distance\<close> here
  (\<open>dist\<close> is a constant of HOL).\<close>

definition estimate_travel_time ::
  "real \<Rightarrow> real \<Rightarrow> real \<Rightarrow> real \<Rightarrow> bool \<Rightarrow> py_error + (real \<times> real)" where
  "estimate_travel_time max_velocity max_acceleration current_velocity distance should_deaccelerate =
    (let d_f = \<bar>distance\<bar>;
         v_max = max_velocity;
         v_i = current_velocity;
         a = max_acceleration
     in if should_deaccelerate then
          then_do (will_hit_max_velocity current_velocity distance) (\<lambda>hit.
            if hit then
              then_do (py_div d_f v_max) (\<lambda>q1.
              then_do (py_div (v_i ^ 2) (2 * a * v_max)) (\<lambda>q2.
              then_do (py_div (2 * v_max - v_i) a) (\<lambda>q3.
              then_do (py_div v_max a) (\<lambda>q4.
                let t_f = q1 + q2 + q3; t_c = t_f - q4 in Inr (t_c, t_f)))))
            else
              then_do (py_sqrt ((- 4 * v_i ^ 2) + (4 * v_i) + (64 * a * d_f) + 1)) (\<lambda>r.
              then_do (py_div (- 2 * v_i - 1 + r) (4 * a)) (\<lambda>t_f.
              then_do (py_div v_i (2 * a)) (\<lambda>q.
                let t_c = (t_f / 2) - q in Inr (t_c, t_f)))))
        else
          then_do (py_sqrt (v_i ^ 2 + (2 * a * d_f))) (\<lambda>r.
          then_do (py_div (min (v_i + r) v_max) a) (\<lambda>t_f.
            let t_c = t_f in Inr (t_c, t_f))))"

section \<open>chassis.py: turn angle to per-side distances\<close>

text \<open>The first three statements of \<open>QuadChassis._update_turn\<close> (chassis.py:208) and of
  \<open>TestChassis._update_turn\<close> (chassis.py:119), which are the same text. The class
  constant \<open>_wheelspan\<close> is \<open>util.inches_to_meters(...)\<close>, of a module that is not part of
  the sources, so it is an argument here. The result is \<open>(left_dist, right_dist)\<close>.\<close>

definition turn_dists :: "real \<Rightarrow> real \<Rightarrow> py_error + (real \<times> real)" where
  "turn_dists wheelspan angle =
    then_do (py_div angle wheelspan) (\<lambda>q.
      let goal_dist = q / 2;
          left_dist = copysign goal_dist angle;
          right_dist = - copysign goal_dist angle
      in Inr (left_dist, right_dist))"

section \<open>devices.py: Motor\<close>

text \<open>
  A \<open>Motor\<close> forwards every read and write to \<open>robot.get_value\<close> and \<open>robot.set_value\<close>
  for the properties \<open>enc_<motor>\<close> and \<open>velocity_<motor>\<close> of its controller. The robot
  object is supplied by the runtime; here it is the store of those two properties, kept in
  the motor record beside the \<open>_is_inverted\<close> slot. The encoder field may be changed
  between calls by the world (the wheel turning).
\<close>

record motor =
  is_inverted :: bool
  enc :: real
  velocity :: real

definition set_velocity :: "real \<Rightarrow> motor \<Rightarrow> motor" where
  "set_velocity v m = m\<lparr>velocity := v\<rparr>"

definition get_encoder :: "motor \<Rightarrow> real" where
  "get_encoder m = enc m * (if is_inverted m then - 1 else 1)"

definition reset_encoder :: "motor \<Rightarrow> motor" where
  "reset_encoder m = m\<lparr>enc := 0\<rparr>"

section \<open>devices.py: Wheel\<close>

text \<open>
  The slots of \<open>Wheel\<close>. \<open>__init__\<close> assigns \<open>_radius\<close>, \<open>_ticks_per_rot\<close> and
  \<open>_start_pos = None\<close>; the slots \<open>_goal_pos\<close> and \<open>_velocity\<close> stay unassigned until
  \<open>set_goal\<close> or \<open>stop\<close> runs, and reading an unassigned slot raises \<open>AttributeError\<close>.
  \<open>None\<close> in \<open>goal_pos\<close> and \<open>wheel_velocity\<close> is the unassigned slot; \<open>None\<close> in
  \<open>start_pos\<close> is Python's \<open>None\<close>. The motor the wheel refers to is passed to every
  method and returned updated.
\<close>

record wheel =
  radius :: real
  ticks_per_rot :: real
  start_pos :: "real option"
  goal_pos :: "real option"
  wheel_velocity :: "real option"

definition new_wheel :: "real \<Rightarrow> real \<Rightarrow> wheel" where
  "new_wheel r tpr =
    \<lparr>radius = r, ticks_per_rot = tpr, start_pos = None, goal_pos = None, wheel_velocity = None\<rparr>"

text \<open>\<open>Wheel.set_goal\<close> (devices.py:59).\<close>

definition set_goal :: "real \<Rightarrow> real \<Rightarrow> wheel \<Rightarrow> motor \<Rightarrow> py_error + (wheel \<times> motor)" where
  "set_goal goal v w m =
    (let w1 = w\<lparr>start_pos := Some (get_encoder m)\<rparr> in
     then_do (py_div goal (radius w1 * 2 * pi)) (\<lambda>q.
       let g = real_of_int \<lceil>q * ticks_per_rot w1\<rceil>;
           w2 = w1\<lparr>goal_pos := Some g\<rparr>;
           m2 = set_velocity (copysign v g) m
       in Inr (w2\<lparr>wheel_velocity := Some v\<rparr>, m2)))"

text \<open>
  \<open>Wheel.get_goal_progress\<close> (devices.py:64). The condition of its first \<open>if\<close> is absent
  from the source text (the line reads \<open>if :\<close>); it is the argument \<open>guard\<close>, a test on
  the wheel. The subtraction \<open>self._goal_pos - self._start_pos\<close> raises \<open>TypeError\<close> when
  \<open>_start_pos\<close> is still \<open>None\<close>.
\<close>

definition get_goal_progress :: "(wheel \<Rightarrow> bool) \<Rightarrow> wheel \<Rightarrow> motor \<Rightarrow> py_error + real" where
  "get_goal_progress guard w m =
    (if guard w then Inr 0
     else case goal_pos w of
       None \<Rightarrow> Inl AttributeError
     | Some g \<Rightarrow>
         if g = 0 then Inr 1
         else (case start_pos w of
                 None \<Rightarrow> Inl TypeError
               | Some s \<Rightarrow> then_do (py_div (g - get_encoder m) (g - s)) (\<lambda>q. Inr (1 - q))))"

text \<open>
  Modelled from the spec: the condition of the first \<open>if\<close> of \<open>Wheel.get_goal_progress\<close>,
  whose text is missing from devices.py:65. The spec's first case of \<open>get_goal_progress\<close>
  is "if no goal has ever been set", which it explains as a query "before first
  \<open>set_goal\<close>". \<open>__init__\<close> assigns \<open>None\<close> to \<open>_start_pos\<close> and \<open>set_goal\<close> is the only
  method that assigns it again, so no \<open>set_goal\<close> has run exactly when \<open>_start_pos\<close> is
  \<open>None\<close>.
\<close>

definition goal_never_set :: "wheel \<Rightarrow> bool" where
  "goal_never_set w = (start_pos w = None)"

text \<open>\<open>Wheel.stop\<close> (devices.py:72).\<close>

definition stop :: "wheel \<Rightarrow> motor \<Rightarrow> wheel \<times> motor" where
  "stop w m = (w\<lparr>goal_pos := Some (get_encoder m)\<rparr>, set_velocity 0 m)"

text \<open>\<open>Wheel.update\<close> (devices.py:75) starts by reading \<open>self._initialized\<close>, which is not
  among the slots of the class and is assigned nowhere: the read raises.\<close>

definition wheel_update :: "wheel \<Rightarrow> motor \<Rightarrow> py_error + (wheel \<times> motor)" where
  "wheel_update w m = Inl AttributeError"

section \<open>chassis.py: the motion queue\<close>

text \<open>
  A \<open>QueuedMotion\<close> holds an update method of the chassis, its data and an optional setup
  callable. The three ways the chassis builds one are the three constructors: \<open>move\<close>
  stores \<open>path.Path(position, end_pos, angle)\<close>, \<open>turn\<close> stores the angle, and
  \<open>peripheral_action\<close> stores the peripheral with the action as setup callable. Peripherals
  and actions are objects of the caller, of the types \<open>'p\<close> and \<open>'a\<close>.
\<close>

type_synonym point = "real \<times> real"

datatype ('p, 'a) queued_motion =
    Move point point real
  | Turn real
  | PeripheralAction 'p 'a

text \<open>
  The slots of \<open>BaseQueuedChassis\<close>; \<open>sub\<close> holds the slots a subclass adds and the
  devices it drives.
\<close>

record ('p, 'a, 's) chassis =
  queue :: "('p, 'a) queued_motion list"
  position :: point
  angle :: real
  is_idle :: bool
  sub :: 's

text \<open>
  The methods a subclass overrides, and the two calls into the caller's objects
  (\<open>peripheral.update()\<close> inside \<open>_update_peripheral\<close>, and the action run by
  \<open>QueuedMotion.setup\<close>). Of the base-class slots the overrides in chassis.py read only
  \<open>len(self._queue)\<close>, which is the \<^typ>\<open>nat\<close> argument of the three update methods.
\<close>

record ('p, 'a, 's) variant =
  on_start_new_motion :: "('p, 'a) queued_motion \<Rightarrow> 's \<Rightarrow> py_error + 's"
  on_queue_finish :: "'s \<Rightarrow> py_error + 's"
  on_post_update :: "'s \<Rightarrow> py_error + 's"
  update_move :: "point \<Rightarrow> point \<Rightarrow> real \<Rightarrow> nat \<Rightarrow> 's \<Rightarrow> py_error + (bool \<times> 's)"
  update_turn :: "real \<Rightarrow> nat \<Rightarrow> 's \<Rightarrow> py_error + (bool \<times> 's)"
  update_peripheral :: "'p \<Rightarrow> nat \<Rightarrow> 's \<Rightarrow> py_error + (bool \<times> 's)"
  run_action :: "'a \<Rightarrow> 's \<Rightarrow> py_error + 's"

definition new_chassis :: "point \<Rightarrow> real \<Rightarrow> 's \<Rightarrow> ('p, 'a, 's) chassis" where
  "new_chassis starting_position starting_angle s =
    \<lparr>queue = [], position = starting_position, angle = starting_angle, is_idle = True, sub = s\<rparr>"

definition move :: "point \<Rightarrow> real \<Rightarrow> ('p, 'a, 's) chassis \<Rightarrow> ('p, 'a, 's) chassis" where
  "move end_pos a c = c\<lparr>queue := queue c @ [Move (position c) end_pos a], position := end_pos\<rparr>"

definition turn :: "real \<Rightarrow> ('p, 'a, 's) chassis \<Rightarrow> ('p, 'a, 's) chassis" where
  "turn a c = c\<lparr>queue := queue c @ [Turn a], angle := angle c + a\<rparr>"

definition orient :: "real \<Rightarrow> ('p, 'a, 's) chassis \<Rightarrow> ('p, 'a, 's) chassis" where
  "orient a c = (turn (a - angle c) c)\<lparr>angle := a\<rparr>"

definition peripheral_action :: "'p \<Rightarrow> 'a \<Rightarrow> ('p, 'a, 's) chassis \<Rightarrow> ('p, 'a, 's) chassis" where
  "peripheral_action peripheral action c = c\<lparr>queue := queue c @ [PeripheralAction peripheral action]\<rparr>"

text \<open>\<open>QueuedMotion.setup\<close> and \<open>QueuedMotion.update\<close> (chassis.py:13, :16).\<close>

fun motion_setup :: "('p, 'a, 's) variant \<Rightarrow> ('p, 'a) queued_motion \<Rightarrow> 's \<Rightarrow> py_error + 's" where
  "motion_setup V (PeripheralAction peripheral action) s = run_action V action s"
| "motion_setup V (Move p q a) s = Inr s"
| "motion_setup V (Turn a) s = Inr s"

fun motion_update ::
  "('p, 'a, 's) variant \<Rightarrow> ('p, 'a) queued_motion \<Rightarrow> nat \<Rightarrow> 's \<Rightarrow> py_error + (bool \<times> 's)" where
  "motion_update V (Move p q a) n s = update_move V p q a n s"
| "motion_update V (Turn a) n s = update_turn V a n s"
| "motion_update V (PeripheralAction peripheral action) n s = update_peripheral V peripheral n s"

text \<open>
  \<open>BaseQueuedChassis.update\<close> (chassis.py:42), in three steps: the start of a motion when
  the chassis is idle, the update of the head (or the finish of the queue), the post-update
  hook.
\<close>

definition start_if_idle ::
  "('p, 'a, 's) variant \<Rightarrow> ('p, 'a, 's) chassis \<Rightarrow> py_error + ('p, 'a, 's) chassis" where
  "start_if_idle V c =
    (case queue c of
       m # rest \<Rightarrow>
         if is_idle c
         then then_do (on_start_new_motion V m (sub c)) (\<lambda>s. Inr (c\<lparr>sub := s, is_idle := False\<rparr>))
         else Inr c
     | [] \<Rightarrow> Inr c)"

definition advance_queue ::
  "('p, 'a, 's) variant \<Rightarrow> ('p, 'a, 's) chassis \<Rightarrow> py_error + ('p, 'a, 's) chassis" where
  "advance_queue V c =
    (case queue c of
       m # rest \<Rightarrow>
         then_do (motion_update V m (length (queue c)) (sub c)) (\<lambda>(running, s).
           if \<not> running then
             (case rest of
                m' # rest' \<Rightarrow>
                  then_do (on_start_new_motion V m' s) (\<lambda>s1.
                  then_do (motion_setup V m' s1) (\<lambda>s2.
                    Inr (c\<lparr>queue := rest, sub := s2\<rparr>)))
              | [] \<Rightarrow> Inr (c\<lparr>queue := rest, sub := s\<rparr>))
           else Inr (c\<lparr>sub := s\<rparr>))
     | [] \<Rightarrow>
         if \<not> is_idle c
         then then_do (on_queue_finish V (sub c)) (\<lambda>s. Inr (c\<lparr>sub := s, is_idle := True\<rparr>))
         else Inr c)"

definition update ::
  "('p, 'a, 's) variant \<Rightarrow> ('p, 'a, 's) chassis \<Rightarrow> py_error + ('p, 'a, 's) chassis" where
  "update V c =
    then_do (start_if_idle V c) (\<lambda>c1.
    then_do (advance_queue V c1) (\<lambda>c2.
    then_do (on_post_update V (sub c2)) (\<lambda>s. Inr (c2\<lparr>sub := s\<rparr>))))"

text \<open>The methods of \<open>BaseQueuedChassis\<close> itself: empty hooks, update methods that raise.\<close>

definition base_variant :: "('a \<Rightarrow> 's \<Rightarrow> py_error + 's) \<Rightarrow> ('p, 'a, 's) variant" where
  "base_variant run =
    \<lparr>on_start_new_motion = (\<lambda>m s. Inr s),
     on_queue_finish = (\<lambda>s. Inr s),
     on_post_update = (\<lambda>s. Inr s),
     update_move = (\<lambda>p q a n s. Inl NotImplementedError),
     update_turn = (\<lambda>a n s. Inl NotImplementedError),
     update_peripheral = (\<lambda>peripheral n s. Inl NotImplementedError),
     run_action = run\<rparr>"

section \<open>chassis.py: QuadChassis\<close>

text \<open>
  The slots \<open>_motors\<close> and \<open>_wheels\<close> are \<open>util.LRStruct\<close> objects with a \<open>left\<close> and
  a \<open>right\<close> attribute, here pairs \<open>(left, right)\<close>. Each wheel refers to the motor of its
  side, so a wheel method takes that motor and the motor it returns is stored back.
\<close>

record quad_state =
  motors :: "motor \<times> motor"
  wheels :: "wheel \<times> wheel"

text \<open>\<open>QuadChassis._update_motors\<close> (chassis.py:213). The quotient that is an argument
  of \<open>set_goal\<close> is evaluated before the call.\<close>

definition quad_update_motors ::
  "(wheel \<Rightarrow> bool) \<Rightarrow> real \<Rightarrow> real \<Rightarrow> quad_state \<Rightarrow> py_error + (bool \<times> quad_state)" where
  "quad_update_motors guard left_dist right_dist s =
    (let max_abs_dist = max \<bar>left_dist\<bar> \<bar>right_dist\<bar> in
     then_do (py_div left_dist max_abs_dist) (\<lambda>vl.
     then_do (set_goal left_dist vl (fst (wheels s)) (fst (motors s))) (\<lambda>(wl, ml).
     then_do (py_div right_dist max_abs_dist) (\<lambda>vr.
     then_do (set_goal right_dist vr (snd (wheels s)) (snd (motors s))) (\<lambda>(wr, mr).
     then_do (get_goal_progress guard wl ml) (\<lambda>left_progress.
     then_do (get_goal_progress guard wr mr) (\<lambda>right_progress.
       Inr (min left_progress right_progress < 1,
            s\<lparr>motors := (ml, mr), wheels := (wl, wr)\<rparr>))))))))"

text \<open>
  The overrides of \<open>QuadChassis\<close>. Its arguments are what the sources do not contain:
  the class constant \<open>_wheelspan\<close>, the absent condition of \<open>Wheel.get_goal_progress\<close>,
  \<open>get_offset_length\<close> of the module \<open>path\<close> (applied to the three arguments of
  \<open>path.Path\<close> and the offset), and the caller's peripherals and actions.
\<close>

definition quad_variant ::
  "real \<Rightarrow> (wheel \<Rightarrow> bool) \<Rightarrow> (point \<Rightarrow> point \<Rightarrow> real \<Rightarrow> real \<Rightarrow> real) \<Rightarrow>
   ('p \<Rightarrow> quad_state \<Rightarrow> py_error + (bool \<times> quad_state)) \<Rightarrow>
   ('a \<Rightarrow> quad_state \<Rightarrow> py_error + quad_state) \<Rightarrow> ('p, 'a, quad_state) variant" where
  "quad_variant wheelspan guard get_offset_length peripheral_update run =
    \<lparr>on_start_new_motion = (\<lambda>m s.
       Inr (s\<lparr>motors := (reset_encoder (fst (motors s)), reset_encoder (snd (motors s)))\<rparr>)),
     on_queue_finish = (\<lambda>s.
       let (wl, ml) = stop (fst (wheels s)) (fst (motors s));
           (wr, mr) = stop (snd (wheels s)) (snd (motors s))
       in Inr (s\<lparr>motors := (ml, mr), wheels := (wl, wr)\<rparr>)),
     on_post_update = (\<lambda>s.
       then_do (wheel_update (fst (wheels s)) (fst (motors s))) (\<lambda>(wl, ml).
       then_do (wheel_update (snd (wheels s)) (snd (motors s))) (\<lambda>(wr, mr).
         Inr (s\<lparr>motors := (ml, mr), wheels := (wl, wr)\<rparr>)))),
     update_move = (\<lambda>p q a n s.
       let left_dist = get_offset_length p q a (wheelspan / 2);
           right_dist = get_offset_length p q a (- wheelspan / 2)
       in quad_update_motors guard left_dist right_dist s),
     update_turn = (\<lambda>a n s.
       then_do (turn_dists wheelspan a) (\<lambda>(left_dist, right_dist).
         quad_update_motors guard left_dist right_dist s)),
     update_peripheral = (\<lambda>peripheral n s. peripheral_update peripheral s),
     run_action = run\<rparr>"

section \<open>chassis.py: TestChassis\<close>

text \<open>
  The slots of \<open>TestChassis\<close>. \<open>_motion_start_timestamp\<close> is unassigned (\<open>None\<close> here)
  until \<open>_on_start_new_motion\<close> runs. \<open>_max_velocity\<close> and \<open>_max_acceleration\<close> are
  computed by \<open>__init__\<close> with \<open>util.inches_to_meters\<close>, which the sources do not contain.
\<close>

record test_state =
  test_motors :: "motor \<times> motor"
  actual_motor_velocity :: "real \<times> real"
  motion_start_timestamp :: "real option"
  max_acceleration :: real
  max_velocity :: real

text \<open>
  \<open>TestChassis._update_motors\<close> (chassis.py:126); \<open>n\<close> is \<open>len(self._queue)\<close> and
  \<open>now\<close> the reading of \<open>time.time()\<close>. \<open>self._motors.left.stop()\<close> calls a method that
  \<open>devices.Motor\<close> does not have, which raises \<open>AttributeError\<close>.
\<close>

definition test_update_motors ::
  "real \<Rightarrow> nat \<Rightarrow> real \<Rightarrow> real \<Rightarrow> test_state \<Rightarrow> py_error + (bool \<times> test_state)" where
  "test_update_motors now n left_dist right_dist s =
    (let should_deaccelerate = (n = 1) in
     then_do (estimate_travel_time (max_velocity s) (max_acceleration s)
                (fst (actual_motor_velocity s)) left_dist should_deaccelerate)
       (\<lambda>(left_deacc_time, left_finish_time).
     then_do (estimate_travel_time (max_velocity s) (max_acceleration s)
                (snd (actual_motor_velocity s)) right_dist should_deaccelerate)
       (\<lambda>(right_deacc_time, right_finish_time).
     case motion_start_timestamp s of
       None \<Rightarrow> Inl AttributeError
     | Some started \<Rightarrow>
         (let elapsed = started - now in
          if elapsed > min left_deacc_time right_deacc_time then Inl AttributeError
          else
            (let max_abs_dist = max \<bar>left_dist\<bar> \<bar>right_dist\<bar> in
             then_do (py_div left_dist max_abs_dist) (\<lambda>vl.
             then_do (py_div right_dist max_abs_dist) (\<lambda>vr.
               Inr (elapsed \<le> min left_finish_time right_finish_time,
                    s\<lparr>test_motors := (set_velocity vl (fst (test_motors s)),
                                       set_velocity vr (snd (test_motors s)))\<rparr>))))))))"

definition test_variant ::
  "real \<Rightarrow> real \<Rightarrow> (point \<Rightarrow> point \<Rightarrow> real \<Rightarrow> real \<Rightarrow> real) \<Rightarrow>
   ('p \<Rightarrow> test_state \<Rightarrow> py_error + (bool \<times> test_state)) \<Rightarrow>
   ('a \<Rightarrow> test_state \<Rightarrow> py_error + test_state) \<Rightarrow> ('p, 'a, test_state) variant" where
  "test_variant now wheelspan get_offset_length peripheral_update run =
    \<lparr>on_start_new_motion = (\<lambda>m s. Inr (s\<lparr>motion_start_timestamp := Some 0\<rparr>)),
     on_queue_finish = (\<lambda>s. Inl AttributeError),
     on_post_update = (\<lambda>s. Inr s),
     update_move = (\<lambda>p q a n s.
       let left_dist = get_offset_length p q a (wheelspan / 2);
           right_dist = get_offset_length p q a (- wheelspan / 2)
       in test_update_motors now n left_dist right_dist s),
     update_turn = (\<lambda>a n s.
       then_do (turn_dists wheelspan a) (\<lambda>(left_dist, right_dist).
         test_update_motors now n left_dist right_dist s)),
     update_peripheral = (\<lambda>peripheral n s. peripheral_update peripheral s),
     run_action = run\<rparr>"

section \<open>Counting hook calls\<close>

text \<open>
  To state how often the start and the finish hook run, \<open>counting V\<close> is the variant \<open>V\<close>
  with two counters beside its state: the number of calls of \<open>_on_start_new_motion\<close> and
  of \<open>_on_queue_finish\<close> that returned. Nothing else changes.
\<close>

definition counting :: "('p, 'a, 's) variant \<Rightarrow> ('p, 'a, 's \<times> nat \<times> nat) variant" where
  "counting V =
    \<lparr>on_start_new_motion = (\<lambda>m (s, starts, finishes).
       then_do (on_start_new_motion V m s) (\<lambda>s'. Inr (s', Suc starts, finishes))),
     on_queue_finish = (\<lambda>(s, starts, finishes).
       then_do (on_queue_finish V s) (\<lambda>s'. Inr (s', starts, Suc finishes))),
     on_post_update = (\<lambda>(s, k).
       then_do (on_post_update V s) (\<lambda>s'. Inr (s', k))),
     update_move = (\<lambda>p q a n (s, k).
       then_do (update_move V p q a n s) (\<lambda>(running, s'). Inr (running, s', k))),
     update_turn = (\<lambda>a n (s, k).
       then_do (update_turn V a n s) (\<lambda>(running, s'). Inr (running, s', k))),
     update_peripheral = (\<lambda>peripheral n (s, k).
       then_do (update_peripheral V peripheral n s) (\<lambda>(running, s'). Inr (running, s', k))),
     run_action = (\<lambda>action (s, k).
       then_do (run_action V action s) (\<lambda>s'. Inr (s', k)))\<rparr>"

definition starts :: "('p, 'a, 's \<times> nat \<times> nat) chassis \<Rightarrow> nat" where
  "starts c = fst (snd (sub c))"

definition finishes :: "('p, 'a, 's \<times> nat \<times> nat) chassis \<Rightarrow> nat" where
  "finishes c = snd (snd (sub c))"

section \<open>mock\_robot.py: MockRobot\<close>

text \<open>
  The values a device property holds are Python floats, ints and bools; \<open>type(v)\<close> is
  \<open>py_type_of v\<close>, and \<open>as_real\<close> is the number a value stands for in arithmetic
  (\<open>True\<close> is 1).
\<close>

datatype py_value = PFloat real | PInt int | PBool bool

datatype py_type = FloatType | IntType | BoolType

fun py_type_of :: "py_value \<Rightarrow> py_type" where
  "py_type_of (PFloat x) = FloatType"
| "py_type_of (PInt i) = IntType"
| "py_type_of (PBool b) = BoolType"

fun as_real :: "py_value \<Rightarrow> real" where
  "as_real (PFloat x) = x"
| "as_real (PInt i) = real_of_int i"
| "as_real (PBool b) = (if b then 1 else 0)"

text \<open>\<open>MockRobot._default_device_properties\<close>, in the order of the dictionary literal.\<close>

definition default_device_properties :: "(string \<times> (string \<times> py_value) list) list" where
  "default_device_properties =
    [(''koalabear'',
       [(''velocity_a'', PFloat 0), (''deadband_a'', PFloat (5 / 100)), (''invert_a'', PBool False),
        (''pid_enabled_a'', PBool True), (''pid_kp_a'', PFloat (5 / 100)),
        (''pid_ki_a'', PFloat (35 / 1000)), (''pid_kd_a'', PFloat 0), (''enc_a'', PInt 0),
        (''velocity_b'', PFloat 0), (''deadband_b'', PFloat (5 / 100)), (''invert_b'', PBool False),
        (''pid_enabled_b'', PBool True), (''pid_kp_b'', PFloat (5 / 100)),
        (''pid_ki_b'', PFloat (35 / 1000)), (''pid_kd_b'', PFloat 0), (''enc_b'', PInt 0)]),
     (''servocontroller'',
       [(''servo0'', PFloat 0), (''servo1'', PFloat 0)])]"

definition motor_ticks_per_sec :: real where
  "motor_ticks_per_sec = 2000"

text \<open>The slots of \<open>MockRobot\<close> (the logger apart). A device is its dictionary of
  properties, the key \<open>_LAST_UPDATED\<close> included.\<close>

record mock_robot =
  devices :: "string \<rightharpoonup> (string \<rightharpoonup> py_value)"
  device_types :: "string \<rightharpoonup> string"
  max_devices :: "string \<rightharpoonup> int"
  device_counts :: "string \<rightharpoonup> int"

definition new_mock_robot :: "(string \<rightharpoonup> int) \<Rightarrow> mock_robot" where
  "new_mock_robot limits =
    \<lparr>devices = Map.empty, device_types = Map.empty, max_devices = limits,
     device_counts = map_of (map (\<lambda>(device_type, props). (device_type, 0)) default_device_properties)\<rparr>"

text \<open>
  Every method returns the robot as the call leaves it together with its result, since a
  call that raises may have changed the robot before. Each reading of \<open>time.time()\<close> is
  an argument of the method that makes it.

  \<open>MockRobot._check_property\<close> (mock\_robot.py:57). When no device type has the property
  the loop ends without assigning \<open>found_device_type\<close>, and the test that reads it raises
  \<open>UnboundLocalError\<close>.
\<close>

definition check_property ::
  "real \<Rightarrow> mock_robot \<Rightarrow> string \<Rightarrow> string \<Rightarrow> mock_robot \<times> (py_error + unit)" where
  "check_property t r device_id value_name =
    (let present = (\<lambda>r'.
           case devices r' device_id of
             None \<Rightarrow> (r', Inl KeyError)
           | Some device \<Rightarrow>
               if device value_name = None then (r', Inl ValueError) else (r', Inr ()))
     in if devices r device_id = None then
          (case find (\<lambda>(device_type, default_props). value_name \<in> set (map fst default_props))
                  default_device_properties of
             None \<Rightarrow> (r, Inl UnboundLocalError)
           | Some (device_type, default_props) \<Rightarrow>
               (case max_devices r device_type of
                  None \<Rightarrow> (r, Inl ValueError)
                | Some limit \<Rightarrow>
                    (case device_counts r device_type of
                       None \<Rightarrow> (r, Inl KeyError)
                     | Some n \<Rightarrow>
                         if n \<ge> limit then (r, Inl ValueError)
                         else
                           (let device = map_of default_props;
                                device' = (if device_type = ''koalabear''
                                           then device(''_LAST_UPDATED'' \<mapsto> PFloat t)
                                           else device)
                            in present
                                 (r\<lparr>device_counts := (device_counts r)(device_type \<mapsto> n + 1),
                                    devices := (devices r)(device_id \<mapsto> device'),
                                    device_types := (device_types r)(device_id \<mapsto> device_type)\<rparr>)))))
        else present r)"

text \<open>\<open>MockRobot._update_koalabear\<close> (mock\_robot.py:76). The device dictionary is
  changed in place, so the new \<open>_LAST_UPDATED\<close> stays when a bound check raises.\<close>

definition update_koalabear ::
  "real \<Rightarrow> mock_robot \<Rightarrow> string \<Rightarrow> mock_robot \<times> (py_error + unit)" where
  "update_koalabear timestamp r device_id =
    (let store = (\<lambda>device. r\<lparr>devices := (devices r)(device_id \<mapsto> device)\<rparr>) in
     case devices r device_id of
       None \<Rightarrow> (r, Inl KeyError)
     | Some device \<Rightarrow>
     (case device ''_LAST_UPDATED'' of
       None \<Rightarrow> (r, Inl KeyError)
     | Some last_updated \<Rightarrow>
     (let dt = as_real last_updated - timestamp;
          device1 = device(''_LAST_UPDATED'' \<mapsto> PFloat timestamp)
      in case device1 ''velocity_a'' of
       None \<Rightarrow> (store device1, Inl KeyError)
     | Some velocity_a \<Rightarrow>
     if \<bar>as_real velocity_a\<bar> > 1 then (store device1, Inl ValueError)
     else (case device1 ''velocity_b'' of
       None \<Rightarrow> (store device1, Inl KeyError)
     | Some velocity_b \<Rightarrow>
     if \<bar>as_real velocity_b\<bar> > 1 then (store device1, Inl ValueError)
     else (case device1 ''enc_a'' of
       None \<Rightarrow> (store device1, Inl KeyError)
     | Some enc_a \<Rightarrow>
     (let device2 = device1(''enc_a'' \<mapsto>
            PFloat (as_real enc_a + as_real velocity_a * dt * motor_ticks_per_sec))
      in case device2 ''enc_b'' of
       None \<Rightarrow> (store device2, Inl KeyError)
     | Some enc_b \<Rightarrow>
     (let device3 = device2(''enc_b'' \<mapsto>
            PFloat (as_real enc_b + as_real velocity_b * dt * motor_ticks_per_sec))
      in (store device3, Inr ()))))))))"

text \<open>The part \<open>get_value\<close> and \<open>set_value\<close> share: the property check, then the
  update of a koalabear device.\<close>

definition access_device ::
  "real \<Rightarrow> real \<Rightarrow> mock_robot \<Rightarrow> string \<Rightarrow> string \<Rightarrow> mock_robot \<times> (py_error + unit)" where
  "access_device t_create t_update r device_id value_name =
    (case check_property t_create r device_id value_name of
       (r1, Inl e) \<Rightarrow> (r1, Inl e)
     | (r1, Inr u) \<Rightarrow>
         if device_types r1 device_id = Some ''koalabear''
         then update_koalabear t_update r1 device_id
         else (r1, Inr ()))"

text \<open>\<open>MockRobot.get_value\<close> (mock\_robot.py:38).\<close>

definition get_value ::
  "real \<Rightarrow> real \<Rightarrow> mock_robot \<Rightarrow> string \<Rightarrow> string \<Rightarrow> mock_robot \<times> (py_error + py_value)" where
  "get_value t_create t_update r device_id value_name =
    (case access_device t_create t_update r device_id value_name of
       (r2, Inl e) \<Rightarrow> (r2, Inl e)
     | (r2, Inr u) \<Rightarrow>
         (case devices r2 device_id of
            None \<Rightarrow> (r2, Inl KeyError)
          | Some device \<Rightarrow>
              (case device value_name of
                 None \<Rightarrow> (r2, Inl KeyError)
               | Some v \<Rightarrow> (r2, Inr v))))"

text \<open>\<open>MockRobot.set_value\<close> (mock\_robot.py:44).\<close>

definition set_value ::
  "real \<Rightarrow> real \<Rightarrow> mock_robot \<Rightarrow> string \<Rightarrow> string \<Rightarrow> py_value \<Rightarrow> mock_robot \<times> (py_error + unit)" where
  "set_value t_create t_update r device_id value_name v =
    (case access_device t_create t_update r device_id value_name of
       (r2, Inl e) \<Rightarrow> (r2, Inl e)
     | (r2, Inr u) \<Rightarrow>
         (case devices r2 device_id of
            None \<Rightarrow> (r2, Inl KeyError)
          | Some device \<Rightarrow>
              (case device value_name of
                 None \<Rightarrow> (r2, Inl KeyError)
               | Some old \<Rightarrow>
                   (let expected_type = py_type_of old;
                        v' = (case v of
                                PInt i \<Rightarrow> if expected_type = FloatType then PFloat (real_of_int i) else v
                              | _ \<Rightarrow> v)
                    in if expected_type \<noteq> py_type_of v' then (r2, Inl TypeError)
                       else (r2\<lparr>devices := (devices r2)(device_id \<mapsto> device(value_name \<mapsto> v'))\<rparr>,
                             Inr ())))))"

section \<open>Properties of the travel-time estimator\<close>

lemma estimate_no_stop:
  assumes "0 < a"
  shows "estimate_travel_time v_max a v_i d False =
    Inr (min (v_i + sqrt (v_i ^ 2 + 2 * a * \<bar>d\<bar>)) v_max / a,
         min (v_i + sqrt (v_i ^ 2 + 2 * a * \<bar>d\<bar>)) v_max / a)"
proof -
  have "0 \<le> v_i ^ 2 + 2 * a * \<bar>d\<bar>"
    using assms by simp
  then have "\<not> v_i ^ 2 + 2 * a * \<bar>d\<bar> < 0"
    by (simp only: not_less)
  then show ?thesis
    using assms by (simp add: estimate_travel_time_def then_do_def py_sqrt_def py_div_def Let_def)
qed

lemma sqrt_dominates: "0 \<le> c \<Longrightarrow> 0 \<le> v + sqrt (v ^ 2 + c)" for v c :: real
proof -
  assume c: "0 \<le> c"
  have "\<bar>v\<bar> = sqrt (v ^ 2)" by simp
  also have "\<dots> \<le> sqrt (v ^ 2 + c)" using c by (simp del: real_sqrt_abs)
  finally show ?thesis by linarith
qed

text \<open>
  C1 (as the code has it). With positive limits, the estimator raises
  \<open>NotImplementedError\<close> whenever a stop is required (the selection predicate is a stub),
  and without a required stop it returns a pair \<open>(t, t)\<close> with \<open>0 \<le> t\<close>, that is
  \<open>0 \<le> t_decel = t_finish\<close>; that pair is \<open>(0, 0)\<close> when the distance is zero and the
  wheel is not moving forward.
\<close>

theorem estimate_travel_time_ordering:
  assumes "0 < v_max" and "0 < a"
  shows "estimate_travel_time v_max a v_i d True = Inl NotImplementedError \<and>
    (\<exists>t. estimate_travel_time v_max a v_i d False = Inr (t, t) \<and>
       0 \<le> t \<and> (d = 0 \<and> v_i \<le> 0 \<longrightarrow> t = 0))"
proof -
  let ?t = "min (v_i + sqrt (v_i ^ 2 + 2 * a * \<bar>d\<bar>)) v_max / a"
  have stop: "estimate_travel_time v_max a v_i d True = Inl NotImplementedError"
    by (simp add: estimate_travel_time_def then_do_def will_hit_max_velocity_def)
  have pair: "estimate_travel_time v_max a v_i d False = Inr (?t, ?t)"
    by (rule estimate_no_stop [OF assms(2)])
  have "0 \<le> v_i + sqrt (v_i ^ 2 + 2 * a * \<bar>d\<bar>)"
    using assms(2) by (intro sqrt_dominates) simp
  then have nonneg: "0 \<le> ?t"
    using assms by simp
  have zero: "?t = 0" if "d = 0" "v_i \<le> 0"
    using that assms by simp
  from pair nonneg zero
  have "\<exists>t. estimate_travel_time v_max a v_i d False = Inr (t, t) \<and>
       0 \<le> t \<and> (d = 0 \<and> v_i \<le> 0 \<longrightarrow> t = 0)"
    by blast
  with stop show ?thesis by blast
qed

theorem estimate_travel_time_ordering_witness:
  "estimate_travel_time 1 1 0 0 True = Inl NotImplementedError \<and>
    (\<exists>t. estimate_travel_time 1 1 0 0 False = Inr (t, t) \<and> 0 \<le> t \<and> t = 0)"
  using estimate_travel_time_ordering [of 1 1 0 0] by simp

theorem estimate_travel_time_counterexample:
  "estimate_travel_time 1 1 1 0 False = Inr (1, 1) \<and>
   estimate_travel_time 1 1 0 1 True = Inl NotImplementedError"
  by (simp add: estimate_travel_time_def then_do_def will_hit_max_velocity_def
      py_sqrt_def py_div_def)

section \<open>Properties of the turn mapper\<close>

lemma turn_dists_value:
  assumes "0 < wheelspan"
  shows "turn_dists wheelspan theta = Inr (theta / wheelspan / 2, - (theta / wheelspan / 2))"
proof (cases "theta < 0")
  case True
  with assms have "theta / wheelspan < 0"
    by (simp add: divide_less_0_iff)
  with True assms show ?thesis
    by (simp add: turn_dists_def then_do_def py_div_def copysign_def Let_def)
next
  case False
  with assms have "0 \<le> theta / wheelspan"
    by simp
  with False assms show ?thesis
    by (simp add: turn_dists_def then_do_def py_div_def copysign_def Let_def)
qed

text \<open>
  C2. The mapper divides the angle by the wheel span where the claim multiplies. With the
  span of the QuadChassis, 14.5 inches = 0.3683 m, and an angle of 1 radian, the code yields
  distances of magnitude \<open>1 / 0.3683 / 2\<close>, which is not \<open>1 \<cdot> 0.3683 / 2\<close>. The signs are
  the claimed ones.
\<close>

theorem turn_dists_divides_by_wheelspan:
  "turn_dists (3683 / 10000) 1 = Inr (5000 / 3683, - (5000 / 3683)) \<and>
   turn_dists (3683 / 10000) 1 \<noteq>
     Inr (\<bar>1\<bar> * (3683 / 10000) / 2, - (\<bar>1\<bar> * (3683 / 10000) / 2))"
  by (simp add: turn_dists_def then_do_def py_div_def copysign_def Let_def)

section \<open>Properties of the goal tracker\<close>









lemma stop_effect:
  "stop w m = (w\<lparr>goal_pos := Some (get_encoder m)\<rparr>, m\<lparr>velocity := 0\<rparr>)"
  by (simp add: stop_def set_velocity_def)

lemma stop_then_progress:
  assumes "start_pos w = Some s" and "\<not> guard (fst (stop w m))"
  shows "get_goal_progress guard (fst (stop w m)) (snd (stop w m)) =
     (if get_encoder m = 0 then Inr 1
      else if get_encoder m = s then Inl ZeroDivisionError else Inr 1)"
  using assms
  by (simp add: get_goal_progress_def stop_def get_encoder_def set_velocity_def then_do_def
      py_div_def)

text \<open>
  C5. \<open>stop()\<close> stores the current encoder reading as the goal and commands velocity 0
  (\<open>stop_effect\<close>), but the progress read that follows divides by
  \<open>goal_pos - start_pos\<close>: when the wheel is stopped at the very reading at which its goal
  was set, and that reading is not 0, the division raises \<open>ZeroDivisionError\<close> instead of
  the method returning 1. (At every other reading it returns 1, \<open>stop_then_progress\<close>.)
\<close>

theorem stop_at_start_progress_raises:
  assumes "start_pos w = Some s" and "get_encoder m = s" and "s \<noteq> 0"
    and "\<not> guard (fst (stop w m))"
  shows "get_goal_progress guard (fst (stop w m)) (snd (stop w m)) = Inl ZeroDivisionError"
  using stop_then_progress [of w s guard m] assms by simp

theorem stop_at_start_progress_raises_witness:
  "set_goal 0 1 (new_wheel 1 1) \<lparr>is_inverted = False, enc = 5, velocity = 0\<rparr> =
     Inr (\<lparr>radius = 1, ticks_per_rot = 1, start_pos = Some 5, goal_pos = Some 0,
            wheel_velocity = Some 1\<rparr>, \<lparr>is_inverted = False, enc = 5, velocity = 1\<rparr>) \<and>
   get_goal_progress (\<lambda>w. start_pos w = None)
     (fst (stop \<lparr>radius = 1, ticks_per_rot = 1, start_pos = Some 5, goal_pos = Some 0,
                  wheel_velocity = Some 1\<rparr> \<lparr>is_inverted = False, enc = 5, velocity = 1\<rparr>))
     (snd (stop \<lparr>radius = 1, ticks_per_rot = 1, start_pos = Some 5, goal_pos = Some 0,
                  wheel_velocity = Some 1\<rparr> \<lparr>is_inverted = False, enc = 5, velocity = 1\<rparr>)) =
     Inl ZeroDivisionError"
proof -
  let ?w = "\<lparr>radius = 1, ticks_per_rot = 1, start_pos = Some 5, goal_pos = Some (0::real),
              wheel_velocity = Some 1\<rparr>"
  let ?m = "\<lparr>is_inverted = False, enc = 5, velocity = 1\<rparr>"
  have s: "set_goal 0 1 (new_wheel 1 1) \<lparr>is_inverted = False, enc = 5, velocity = 0\<rparr> = Inr (?w, ?m)"
    by (simp add: set_goal_def new_wheel_def then_do_def py_div_def copysign_def Let_def
        get_encoder_def set_velocity_def)
  have "get_goal_progress (\<lambda>w. start_pos w = None) (fst (stop ?w ?m)) (snd (stop ?w ?m)) =
      Inl ZeroDivisionError"
    by (rule stop_at_start_progress_raises [where s = 5])
      (simp_all add: get_encoder_def stop_def)
  with s show ?thesis by simp
qed

subsection \<open>The scenario of a one-metre goal\<close>

lemma sin_poly18:
  "(\<Sum>m<18. sin_coeff m * x ^ m) =
     x - x^3/6 + x^5/120 - x^7/5040 + x^9/362880 - x^11/39916800 + x^13/6227020800
       - x^15/1307674368000 + x^17/355687428096000" for x :: real
  by (simp add: sin_coeff_def lessThan_nat_numeral fact_numeral)

lemma pi_upper: "pi < 31416 / 10000"
proof -
  let ?x = "31416 / 10000 :: real"
  have "\<bar>sin ?x - (\<Sum>m<18. sin_coeff m * ?x ^ m)\<bar> \<le> inverse (fact 18) * \<bar>?x\<bar> ^ 18"
    by (rule Maclaurin_sin_bound)
  then have "sin ?x \<le> (\<Sum>m<18. sin_coeff m * ?x ^ m) + inverse (fact 18) * \<bar>?x\<bar> ^ 18"
    by linarith
  also have "\<dots> < 0"
    unfolding sin_poly18 by (simp add: fact_numeral power_divide)
  finally have "sin ?x < 0" .
  moreover have "0 \<le> sin ?x" if "?x \<le> pi"
    using that by (intro sin_ge_zero) simp_all
  ultimately show ?thesis by linarith
qed

lemma pi_lower: "3141 / 1000 < pi"
proof -
  let ?x = "3141 / 1000 :: real"
  have "\<bar>sin ?x - (\<Sum>m<18. sin_coeff m * ?x ^ m)\<bar> \<le> inverse (fact 18) * \<bar>?x\<bar> ^ 18"
    by (rule Maclaurin_sin_bound)
  then have "(\<Sum>m<18. sin_coeff m * ?x ^ m) - inverse (fact 18) * \<bar>?x\<bar> ^ 18 \<le> sin ?x"
    by linarith
  moreover have "0 < (\<Sum>m<18. sin_coeff m * ?x ^ m) - inverse (fact 18) * \<bar>?x\<bar> ^ 18"
    unfolding sin_poly18 by (simp add: fact_numeral power_divide)
  ultimately have pos: "0 < sin ?x" by linarith
  have "sin ?x \<le> 0" if "pi \<le> ?x"
  proof -
    have "?x < 2 * pi" using pi_ge_two by simp
    with that show ?thesis by (rule sin_le_zero)
  qed
  with pos show ?thesis by linarith
qed

lemma scenario_ticks: "\<lceil>1 / (508 / 10000 * 2 * pi) * (135687 / 100)\<rceil> = (4252::int)"
proof -
  let ?q = "1 / (508 / 10000 * 2 * pi) * (135687 / 100) :: real"
  have q: "?q = 3392175 / (254 * pi)" by simp
  have "4251 * (254 * pi) < 3392175"
    using pi_upper by simp
  then have lo: "4251 < ?q"
    unfolding q by (simp add: pos_less_divide_eq)
  have "3392175 \<le> 4252 * (254 * pi)"
    using pi_lower by simp
  then have hi: "?q \<le> 4252"
    unfolding q by (simp add: pos_divide_le_eq)
  show ?thesis
    using lo hi by (intro ceiling_unique) simp_all
qed

lemma set_goal_scenario:
  "set_goal 1 1 (new_wheel (508 / 10000) (135687 / 100))
      \<lparr>is_inverted = False, enc = 0, velocity = 0\<rparr> =
     Inr (\<lparr>radius = 508 / 10000, ticks_per_rot = 135687 / 100, start_pos = Some 0,
            goal_pos = Some 4252, wheel_velocity = Some 1\<rparr>,
          \<lparr>is_inverted = False, enc = 0, velocity = 1\<rparr>)"
proof -
  have "(0::real) < 3392175 / (254 * pi)" by simp
  then have "\<not> 3392175 / (254 * pi) \<le> - 1" by linarith
  with scenario_ticks show ?thesis
    by (simp add: set_goal_def new_wheel_def get_encoder_def then_do_def py_div_def
        set_velocity_def copysign_def Let_def)
qed

text \<open>
  C9 (as the code has it). With radius 0.0508 and 1356.87 ticks per rotation,
  \<open>set_goal(1.0, 1.0)\<close> from an encoder reading of 0 stores the goal 4252, the ceiling of
  4251.03..., and commands velocity 1. \<open>get_goal_progress()\<close> is then 0 at the reading 0
  and 1 at the reading 4252: after \<open>set_goal\<close> the first \<open>if\<close> is not taken. (For any
  other condition in that \<open>if\<close>, the progress at the reading 0 is 0 as well, and at the
  reading 4252 it is 1 when the \<open>if\<close> is not taken and 0 when it is.)
\<close>

theorem scenario_goal_and_progress:
  "set_goal 1 1 (new_wheel (508 / 10000) (135687 / 100))
      \<lparr>is_inverted = False, enc = 0, velocity = 0\<rparr> =
     Inr (\<lparr>radius = 508 / 10000, ticks_per_rot = 135687 / 100, start_pos = Some 0,
            goal_pos = Some 4252, wheel_velocity = Some 1\<rparr>,
          \<lparr>is_inverted = False, enc = 0, velocity = 1\<rparr>) \<and>
   get_goal_progress goal_never_set
      \<lparr>radius = 508 / 10000, ticks_per_rot = 135687 / 100, start_pos = Some 0,
          goal_pos = Some 4252, wheel_velocity = Some 1\<rparr>
      \<lparr>is_inverted = False, enc = 0, velocity = 1\<rparr> = Inr 0 \<and>
   get_goal_progress goal_never_set
      \<lparr>radius = 508 / 10000, ticks_per_rot = 135687 / 100, start_pos = Some 0,
          goal_pos = Some 4252, wheel_velocity = Some 1\<rparr>
      \<lparr>is_inverted = False, enc = 4252, velocity = 1\<rparr> = Inr 1 \<and>
   get_goal_progress guard
      \<lparr>radius = 508 / 10000, ticks_per_rot = 135687 / 100, start_pos = Some 0,
          goal_pos = Some 4252, wheel_velocity = Some 1\<rparr>
      \<lparr>is_inverted = False, enc = 0, velocity = 1\<rparr> = Inr 0 \<and>
   get_goal_progress guard
      \<lparr>radius = 508 / 10000, ticks_per_rot = 135687 / 100, start_pos = Some 0,
          goal_pos = Some 4252, wheel_velocity = Some 1\<rparr>
      \<lparr>is_inverted = False, enc = 4252, velocity = 1\<rparr> =
     (if guard \<lparr>radius = 508 / 10000, ticks_per_rot = 135687 / 100, start_pos = Some 0,
          goal_pos = Some 4252, wheel_velocity = Some 1\<rparr> then Inr 0 else Inr 1)"
  using set_goal_scenario
  by (simp add: get_goal_progress_def goal_never_set_def get_encoder_def then_do_def py_div_def)

theorem scenario_goal_is_not_4253:
  "set_goal 1 1 (new_wheel (508 / 10000) (135687 / 100))
      \<lparr>is_inverted = False, enc = 0, velocity = 0\<rparr> \<noteq>
     Inr (\<lparr>radius = 508 / 10000, ticks_per_rot = 135687 / 100, start_pos = Some 0,
            goal_pos = Some 4253, wheel_velocity = Some 1\<rparr>,
          \<lparr>is_inverted = False, enc = 0, velocity = 1\<rparr>)"
  using set_goal_scenario by simp

section \<open>Properties of a turn by zero\<close>

lemma turn_dists_zero:
  "turn_dists wheelspan 0 = (if wheelspan = 0 then Inl ZeroDivisionError else Inr (0, 0))"
  by (simp add: turn_dists_def then_do_def py_div_def copysign_def)

lemma quad_update_motors_zero: "quad_update_motors guard 0 0 s = Inl ZeroDivisionError"
  by (simp add: quad_update_motors_def then_do_def py_div_def)

lemma quad_update_turn_zero:
  "update_turn (quad_variant wheelspan guard gol pu run) 0 n s = Inl ZeroDivisionError"
  by (simp add: quad_variant_def turn_dists_zero quad_update_motors_zero then_do_def)

lemma start_if_idle_queue:
  "start_if_idle V c = Inr c1 \<Longrightarrow> queue c1 = queue c"
  by (auto simp add: start_if_idle_def then_do_def split: list.splits if_splits sum.splits)

lemma start_if_idle_quad:
  "\<exists>c1. start_if_idle (quad_variant wheelspan guard gol pu run) c = Inr c1 \<and> queue c1 = queue c"
  by (simp add: start_if_idle_def then_do_def quad_variant_def split: list.splits)

lemma quad_zero_turn:
  assumes "queue c = Turn 0 # rest"
  shows "update (quad_variant wheelspan guard gol pu run) c = Inl ZeroDivisionError"
proof -
  obtain c1 where c1: "start_if_idle (quad_variant wheelspan guard gol pu run) c = Inr c1"
    and q: "queue c1 = queue c"
    using start_if_idle_quad by blast
  have "advance_queue (quad_variant wheelspan guard gol pu run) c1 = Inl ZeroDivisionError"
    using q assms by (simp add: advance_queue_def quad_update_turn_zero then_do_def)
  with c1 show ?thesis
    by (simp add: update_def then_do_def)
qed

lemma test_update_motors_single:
  "test_update_motors now (Suc 0) l r s = Inl NotImplementedError"
  by (simp add: test_update_motors_def estimate_travel_time_def will_hit_max_velocity_def then_do_def)

lemma test_update_motors_zero:
  assumes "n \<noteq> 1" and "0 < max_velocity s" and "0 < max_acceleration s" and "0 \<le> now"
    and "motion_start_timestamp s = Some 0"
  shows "test_update_motors now n 0 0 s = Inl ZeroDivisionError"
proof -
  let ?tl = "min (fst (actual_motor_velocity s) + sqrt ((fst (actual_motor_velocity s))\<^sup>2 + 2 * max_acceleration s * \<bar>0\<bar>)) (max_velocity s) / max_acceleration s"
  let ?tr = "min (snd (actual_motor_velocity s) + sqrt ((snd (actual_motor_velocity s))\<^sup>2 + 2 * max_acceleration s * \<bar>0\<bar>)) (max_velocity s) / max_acceleration s"
  have l: "estimate_travel_time (max_velocity s) (max_acceleration s) (fst (actual_motor_velocity s)) 0 False = Inr (?tl, ?tl)"
    by (rule estimate_no_stop [OF assms(3)])
  have r: "estimate_travel_time (max_velocity s) (max_acceleration s) (snd (actual_motor_velocity s)) 0 False = Inr (?tr, ?tr)"
    by (rule estimate_no_stop [OF assms(3)])
  have "0 \<le> ?tl" "0 \<le> ?tr"
    using assms(2,3) by simp_all
  then have "\<not> 0 - now > min ?tl ?tr"
    using assms(4) by simp
  then show ?thesis
    using assms(1,5) l r
    by (simp add: test_update_motors_def then_do_def py_div_def Let_def del: abs_zero)
qed


lemma start_if_idle_test:
  assumes "is_idle t \<or> motion_start_timestamp (sub t) = Some 0" and "queue t \<noteq> []"
  shows "\<exists>t1. start_if_idle (test_variant now wheelspan gol pu run) t = Inr t1 \<and>
     queue t1 = queue t \<and> motion_start_timestamp (sub t1) = Some 0 \<and>
     max_velocity (sub t1) = max_velocity (sub t) \<and>
     max_acceleration (sub t1) = max_acceleration (sub t)"
  using assms
  by (auto simp add: start_if_idle_def then_do_def test_variant_def split: list.splits)

lemma test_zero_turn:
  assumes "queue t = Turn 0 # m # rest"
    and "is_idle t \<or> motion_start_timestamp (sub t) = Some 0"
    and "0 < max_velocity (sub t)" and "0 < max_acceleration (sub t)" and "0 \<le> now"
  shows "update (test_variant now wheelspan gol pu run) t = Inl ZeroDivisionError"
proof -
  let ?V = "test_variant now wheelspan gol pu run"
  obtain t1 where t1: "start_if_idle ?V t = Inr t1" and q: "queue t1 = queue t"
    and ts: "motion_start_timestamp (sub t1) = Some 0"
    and v: "max_velocity (sub t1) = max_velocity (sub t)"
    and a: "max_acceleration (sub t1) = max_acceleration (sub t)"
    using start_if_idle_test [OF assms(2), of now wheelspan gol pu run] assms(1) by auto
  have m: "test_update_motors now (length (queue t1)) 0 0 (sub t1) = Inl ZeroDivisionError"
    using q assms ts v a by (intro test_update_motors_zero) simp_all
  have "update_turn ?V 0 (length (queue t1)) (sub t1) = Inl ZeroDivisionError"
    using m by (simp add: test_variant_def turn_dists_zero then_do_def)
  then have "advance_queue ?V t1 = Inl ZeroDivisionError"
    using q assms(1) by (simp add: advance_queue_def then_do_def)
  with t1 show ?thesis
    by (simp add: update_def then_do_def)
qed

lemma test_single_turn:
  assumes "queue t = [Turn a]" and "wheelspan \<noteq> 0"
    and "is_idle t \<or> motion_start_timestamp (sub t) = Some 0"
  shows "update (test_variant now wheelspan gol pu run) t = Inl NotImplementedError"
proof -
  let ?V = "test_variant now wheelspan gol pu run"
  obtain t1 where t1: "start_if_idle ?V t = Inr t1" and q: "queue t1 = queue t"
    using start_if_idle_test [OF assms(3), of now wheelspan gol pu run] assms(1) by auto
  have "update_turn ?V a (length (queue t1)) (sub t1) = Inl NotImplementedError"
    using q assms(1,2)
    by (simp add: test_variant_def turn_dists_def py_div_def then_do_def Let_def
        test_update_motors_single)
  then have "advance_queue ?V t1 = Inl NotImplementedError"
    using q assms(1) by (simp add: advance_queue_def then_do_def)
  with t1 show ?thesis
    by (simp add: update_def then_do_def)
qed

text \<open>
  C10 (as the code has it). On a QuadChassis whose head motion is a turn by 0, so that both
  per-side distances are 0, \<open>update()\<close> raises \<open>ZeroDivisionError\<close>: the quotient
  \<open>left_dist / max_abs_dist\<close> is \<open>0 / 0\<close>. On a TestChassis the same holds when another
  motion is queued behind the zero turn, the limits are positive and the clock reading is
  not negative. (When the zero turn is the only queued motion of a TestChassis, the
  estimator is asked for a stop and raises \<open>NotImplementedError\<close> before the quotient is
  formed: \<open>test_single_turn\<close>.)
\<close>

theorem zero_turn_update_raises:
  assumes "queue c = Turn 0 # rest"
    and "queue t = Turn 0 # m # rest'"
    and "is_idle t \<or> motion_start_timestamp (sub t) = Some 0"
    and "0 < max_velocity (sub t)" and "0 < max_acceleration (sub t)" and "0 \<le> now"
  shows "quad_update_motors guard 0 0 s = Inl ZeroDivisionError \<and>
    update (quad_variant wheelspan guard gol pu run) c = Inl ZeroDivisionError \<and>
    update (test_variant now wheelspan' gol' pu' run') t = Inl ZeroDivisionError"
  using quad_update_motors_zero [of guard s]
    quad_zero_turn [OF assms(1), of wheelspan guard gol pu run]
    test_zero_turn [OF assms(2) assms(3) assms(4) assms(5) assms(6), of wheelspan' gol' pu' run']
  by simp

theorem zero_turn_update_raises_witness:
  "update (quad_variant (3683 / 10000) (\<lambda>w. start_pos w = None) (\<lambda>p q a off. 0)
            (\<lambda>p s. Inr (p, s)) (\<lambda>a s. Inr s))
     (turn 0 (new_chassis (0, 0) 0
        \<lparr>motors = (\<lparr>is_inverted = False, enc = 0, velocity = 0\<rparr>,
                   \<lparr>is_inverted = True, enc = 0, velocity = 0\<rparr>),
         wheels = (new_wheel (508 / 10000) (135687 / 100),
                   new_wheel (508 / 10000) (135687 / 100))\<rparr>) :: (bool, unit, quad_state) chassis)
     = Inl ZeroDivisionError \<and>
   update (test_variant 0 (508 / 1000) (\<lambda>p q a off. 0) (\<lambda>p s. Inr (p, s)) (\<lambda>a s. Inr s))
     (turn 1 (turn 0 (new_chassis (0, 0) 0
        \<lparr>test_motors = (\<lparr>is_inverted = False, enc = 0, velocity = 0\<rparr>,
                        \<lparr>is_inverted = True, enc = 0, velocity = 0\<rparr>),
         actual_motor_velocity = (0, 0), motion_start_timestamp = None,
         max_acceleration = 1, max_velocity = 1\<rparr>)) :: (bool, unit, test_state) chassis)
     = Inl ZeroDivisionError"
proof -
  let ?c = "turn 0 (new_chassis (0, 0) 0
        \<lparr>motors = (\<lparr>is_inverted = False, enc = 0, velocity = 0\<rparr>,
                   \<lparr>is_inverted = True, enc = 0, velocity = 0\<rparr>),
         wheels = (new_wheel (508 / 10000) (135687 / 100),
                   new_wheel (508 / 10000) (135687 / 100))\<rparr>) :: (bool, unit, quad_state) chassis"
  let ?t = "turn 1 (turn 0 (new_chassis (0, 0) 0
        \<lparr>test_motors = (\<lparr>is_inverted = False, enc = 0, velocity = 0\<rparr>,
                        \<lparr>is_inverted = True, enc = 0, velocity = 0\<rparr>),
         actual_motor_velocity = (0, 0), motion_start_timestamp = None,
         max_acceleration = 1, max_velocity = 1\<rparr>)) :: (bool, unit, test_state) chassis"
  have c: "queue ?c = Turn 0 # []"
    by (simp add: turn_def new_chassis_def)
  have t: "queue ?t = Turn 0 # Turn 1 # []"
    by (simp add: turn_def new_chassis_def)
  have i: "is_idle ?t \<or> motion_start_timestamp (sub ?t) = Some 0"
    by (simp add: turn_def new_chassis_def)
  have v: "0 < max_velocity (sub ?t)" and a: "0 < max_acceleration (sub ?t)"
    by (simp_all add: turn_def new_chassis_def)
  have n: "(0::real) \<le> 0" by simp
  show ?thesis
    using zero_turn_update_raises [OF c t i v a n]
    by blast
qed

theorem zero_turn_alone_on_test_chassis:
  "update (test_variant 0 (508 / 1000) (\<lambda>p q a off. 0) (\<lambda>p s. Inr (p, s)) (\<lambda>a s. Inr s))
     (turn 0 (new_chassis (0, 0) 0
        \<lparr>test_motors = (\<lparr>is_inverted = False, enc = 0, velocity = 0\<rparr>,
                        \<lparr>is_inverted = True, enc = 0, velocity = 0\<rparr>),
         actual_motor_velocity = (0, 0), motion_start_timestamp = None,
         max_acceleration = 1, max_velocity = 1\<rparr>) :: (bool, unit, test_state) chassis)
   = Inl NotImplementedError"
  by (rule test_single_turn) (simp_all add: turn_def new_chassis_def)

section \<open>Properties of the idle flag\<close>

lemma then_do_Inr: "then_do r f = Inr y \<longleftrightarrow> (\<exists>x. r = Inr x \<and> f x = Inr y)"
  by (cases r) (simp_all add: then_do_def)

lemma counting_start:
  "on_start_new_motion (counting V) m x = Inr y \<Longrightarrow> snd y = (Suc (fst (snd x)), snd (snd x))"
  by (cases x) (auto simp add: counting_def then_do_Inr)

lemma counting_finish:
  "on_queue_finish (counting V) x = Inr y \<Longrightarrow> snd y = (fst (snd x), Suc (snd (snd x)))"
  by (cases x) (auto simp add: counting_def then_do_Inr)

lemma counting_post:
  "on_post_update (counting V) x = Inr y \<Longrightarrow> snd y = snd x"
  by (cases x) (auto simp add: counting_def then_do_Inr)

lemma counting_motion_update:
  "motion_update (counting V) m n x = Inr (running, y) \<Longrightarrow> snd y = snd x"
  by (cases m; cases x) (auto simp add: counting_def then_do_Inr)

lemma counting_motion_setup:
  "motion_setup (counting V) m x = Inr y \<Longrightarrow> snd y = snd x"
  by (cases m; cases x) (auto simp add: counting_def then_do_Inr)

lemma start_if_idle_counting:
  assumes "start_if_idle (counting V) c = Inr c1"
  shows "queue c1 = queue c \<and> is_idle c1 = (is_idle c \<and> queue c = []) \<and>
    starts c1 = starts c + (if queue c \<noteq> [] \<and> is_idle c then 1 else 0) \<and>
    finishes c1 = finishes c"
proof (cases "queue c")
  case Nil
  with assms show ?thesis by (simp add: start_if_idle_def)
next
  case (Cons m rest)
  show ?thesis
  proof (cases "is_idle c")
    case False
    with Cons assms show ?thesis by (simp add: start_if_idle_def)
  next
    case True
    with Cons assms obtain y where y: "on_start_new_motion (counting V) m (sub c) = Inr y"
      and c1: "c1 = c\<lparr>sub := y, is_idle := False\<rparr>"
      by (auto simp add: start_if_idle_def then_do_Inr)
    from counting_start [OF y] c1 Cons True show ?thesis
      by (simp add: starts_def finishes_def)
  qed
qed

lemma advance_queue_counting:
  assumes "advance_queue (counting V) c = Inr c2"
  shows "(queue c = [] \<longrightarrow> queue c2 = [] \<and> is_idle c2 \<and> starts c2 = starts c \<and>
            finishes c2 = finishes c + (if is_idle c then 0 else 1)) \<and>
         (queue c \<noteq> [] \<longrightarrow> is_idle c2 = is_idle c \<and> finishes c2 = finishes c \<and>
            (queue c2 = queue c \<and> starts c2 = starts c \<or>
             queue c2 = tl (queue c) \<and>
               starts c2 = starts c + (if tl (queue c) = [] then 0 else 1)))"
proof (cases "queue c")
  case Nil
  show ?thesis
  proof (cases "is_idle c")
    case True
    with Nil assms show ?thesis by (simp add: advance_queue_def)
  next
    case False
    with Nil assms obtain y where y: "on_queue_finish (counting V) (sub c) = Inr y"
      and c2: "c2 = c\<lparr>sub := y, is_idle := True\<rparr>"
      by (auto simp add: advance_queue_def then_do_Inr)
    from counting_finish [OF y] c2 Nil False show ?thesis
      by (simp add: starts_def finishes_def)
  qed
next
  case (Cons m rest)
  with assms obtain running y
    where u: "motion_update (counting V) m (length (queue c)) (sub c) = Inr (running, y)"
      and k: "(if \<not> running then
                 (case rest of
                    m' # rest' \<Rightarrow>
                      then_do (on_start_new_motion (counting V) m' y) (\<lambda>s1.
                      then_do (motion_setup (counting V) m' s1) (\<lambda>s2.
                        Inr (c\<lparr>queue := rest, sub := s2\<rparr>)))
                  | [] \<Rightarrow> Inr (c\<lparr>queue := rest, sub := y\<rparr>))
               else Inr (c\<lparr>sub := y\<rparr>)) = Inr c2"
    by (auto simp add: advance_queue_def then_do_Inr)
  note uy = counting_motion_update [OF u]
  show ?thesis
  proof (cases running)
    case True
    with k uy Cons show ?thesis by (auto simp add: starts_def finishes_def)
  next
    case False
    show ?thesis
    proof (cases rest)
      case Nil
      with k uy Cons False show ?thesis by (auto simp add: starts_def finishes_def)
    next
      case (Cons m' rest')
      with k False obtain s1 s2 where s1: "on_start_new_motion (counting V) m' y = Inr s1"
        and s2: "motion_setup (counting V) m' s1 = Inr s2"
        and c2: "c2 = c\<lparr>queue := rest, sub := s2\<rparr>"
        by (auto simp add: then_do_Inr)
      from counting_start [OF s1] counting_motion_setup [OF s2] uy c2 Cons \<open>queue c = m # rest\<close>
      show ?thesis by (simp add: starts_def finishes_def)
    qed
  qed
qed

lemma two_actions_one_update:
  "update (counting (test_variant 0 (508 / 1000) (\<lambda>p q a off. 0) (\<lambda>p s. Inr (p, s)) (\<lambda>a s. Inr s)))
     (peripheral_action False () (peripheral_action False ()
        (new_chassis (0, 0) 0
          (\<lparr>test_motors = (\<lparr>is_inverted = False, enc = 0, velocity = 0\<rparr>,
                           \<lparr>is_inverted = True, enc = 0, velocity = 0\<rparr>),
            actual_motor_velocity = (0, 0), motion_start_timestamp = None,
            max_acceleration = 1, max_velocity = 1\<rparr>, 0, 0)))) =
   Inr \<lparr>queue = [PeripheralAction False ()], position = (0, 0), angle = 0, is_idle = False,
        sub = (\<lparr>test_motors = (\<lparr>is_inverted = False, enc = 0, velocity = 0\<rparr>,
                                \<lparr>is_inverted = True, enc = 0, velocity = 0\<rparr>),
                 actual_motor_velocity = (0, 0), motion_start_timestamp = Some 0,
                 max_acceleration = 1, max_velocity = 1\<rparr>, 2, 0)\<rparr>"
  by (simp add: update_def start_if_idle_def advance_queue_def counting_def test_variant_def
      peripheral_action_def new_chassis_def then_do_def)

text \<open>
  C7 (as the code has it). After an \<open>update()\<close> that returns, the idle flag is true exactly
  when the queue was empty as that update began; so an idle chassis has an empty queue,
  while an enqueue leaves the flag true, and the pop of the last motion leaves it false,
  until the next update. The finish hook runs in exactly the updates that set the flag
  (empty queue, flag false). The start hook runs in the updates that clear the flag
  (non-empty queue, flag true) and once more in every update that pops a motion and leaves
  another at the head.
\<close>

theorem update_counting:
  assumes "update (counting V) c = Inr c'"
  shows "is_idle c' = (queue c = []) \<and> (is_idle c' \<longrightarrow> queue c' = []) \<and>
    starts c' = starts c + (if queue c \<noteq> [] \<and> is_idle c then 1 else 0)
                + (if queue c' \<noteq> [] \<and> length (queue c') < length (queue c) then 1 else 0) \<and>
    finishes c' = finishes c + (if queue c = [] \<and> \<not> is_idle c then 1 else 0)"
proof -
  from assms obtain c1 c2 y where c1: "start_if_idle (counting V) c = Inr c1"
    and c2: "advance_queue (counting V) c1 = Inr c2"
    and y: "on_post_update (counting V) (sub c2) = Inr y"
    and c': "c' = c2\<lparr>sub := y\<rparr>"
    by (auto simp add: update_def then_do_Inr)
  note a = start_if_idle_counting [OF c1]
  note b = advance_queue_counting [OF c2]
  note p = counting_post [OF y]
  have q: "queue c' = queue c2" "is_idle c' = is_idle c2" "starts c' = starts c2"
    "finishes c' = finishes c2"
    using c' p by (simp_all add: starts_def finishes_def)
  show ?thesis
  proof (cases "queue c")
    case Nil
    with a b q show ?thesis by auto
  next
    case (Cons m rest)
    with a b q show ?thesis by (cases rest) auto
  qed
qed


theorem update_counting_witness:
  "\<not> is_idle \<lparr>queue = [PeripheralAction False ()], position = (0, 0), angle = 0, is_idle = False,
        sub = (\<lparr>test_motors = (\<lparr>is_inverted = False, enc = 0, velocity = 0\<rparr>,
                                \<lparr>is_inverted = True, enc = 0, velocity = 0\<rparr>),
                 actual_motor_velocity = (0, 0), motion_start_timestamp = Some 0,
                 max_acceleration = 1, max_velocity = 1\<rparr>, 2::nat, 0::nat)\<rparr> \<and>
   starts \<lparr>queue = [PeripheralAction False ()], position = (0, 0), angle = 0, is_idle = False,
        sub = (\<lparr>test_motors = (\<lparr>is_inverted = False, enc = 0, velocity = 0\<rparr>,
                                \<lparr>is_inverted = True, enc = 0, velocity = 0\<rparr>),
                 actual_motor_velocity = (0, 0), motion_start_timestamp = Some 0,
                 max_acceleration = 1, max_velocity = 1\<rparr>, 2, 0)\<rparr> =
   starts (peripheral_action False () (peripheral_action False ()
        (new_chassis (0, 0) 0
          (\<lparr>test_motors = (\<lparr>is_inverted = False, enc = 0, velocity = 0\<rparr>,
                           \<lparr>is_inverted = True, enc = 0, velocity = 0\<rparr>),
            actual_motor_velocity = (0, 0), motion_start_timestamp = None,
            max_acceleration = 1, max_velocity = 1\<rparr>, 0, 0)))) + 1 + 1 \<and>
   finishes \<lparr>queue = [PeripheralAction False ()], position = (0, 0), angle = 0, is_idle = False,
        sub = (\<lparr>test_motors = (\<lparr>is_inverted = False, enc = 0, velocity = 0\<rparr>,
                                \<lparr>is_inverted = True, enc = 0, velocity = 0\<rparr>),
                 actual_motor_velocity = (0, 0), motion_start_timestamp = Some 0,
                 max_acceleration = 1, max_velocity = 1\<rparr>, 2, 0)\<rparr> =
   finishes (peripheral_action False () (peripheral_action False ()
        (new_chassis (0, 0) 0
          (\<lparr>test_motors = (\<lparr>is_inverted = False, enc = 0, velocity = 0\<rparr>,
                           \<lparr>is_inverted = True, enc = 0, velocity = 0\<rparr>),
            actual_motor_velocity = (0, 0), motion_start_timestamp = None,
            max_acceleration = 1, max_velocity = 1\<rparr>, 0, 0))))"
  using update_counting [OF two_actions_one_update]
  by (simp add: peripheral_action_def new_chassis_def)

theorem idle_flag_lags_queue:
  "is_idle (turn 1 (new_chassis (0, 0) 0 ()) :: (unit, unit, unit) chassis) \<and>
   queue (turn 1 (new_chassis (0, 0) 0 ()) :: (unit, unit, unit) chassis) \<noteq> []"
  by (simp add: turn_def new_chassis_def)

section \<open>Properties of the simulated robot\<close>

lemma update_koalabear_effect:
  assumes "devices r d = Some dev"
    and "dev ''_LAST_UPDATED'' = Some lu"
    and "dev ''velocity_a'' = Some va" and "dev ''velocity_b'' = Some vb"
    and "dev ''enc_a'' = Some ea" and "dev ''enc_b'' = Some eb"
  shows "update_koalabear t r d =
    (if \<bar>as_real va\<bar> > 1 \<or> \<bar>as_real vb\<bar> > 1
     then (r\<lparr>devices := (devices r)(d \<mapsto> dev(''_LAST_UPDATED'' \<mapsto> PFloat t))\<rparr>, Inl ValueError)
     else (r\<lparr>devices := (devices r)(d \<mapsto> dev(''_LAST_UPDATED'' \<mapsto> PFloat t,
              ''enc_a'' \<mapsto> PFloat (as_real ea + as_real va * (as_real lu - t) * 2000),
              ''enc_b'' \<mapsto> PFloat (as_real eb + as_real vb * (as_real lu - t) * 2000)))\<rparr>, Inr ()))"
  using assms
  by (simp add: update_koalabear_def motor_ticks_per_sec_def Let_def)

lemma check_property_existing:
  assumes "devices r d = Some dev"
  shows "check_property t r d name = (r, if dev name = None then Inl ValueError else Inr ())"
  using assms by (simp add: check_property_def Let_def)


lemma check_property_new_kb:
  "check_property 0 (new_mock_robot [''koalabear'' \<mapsto> 1]) ''kb'' ''velocity_a'' =
     (\<lparr>devices = [''kb'' \<mapsto> (map_of (snd (hd default_device_properties)))(''_LAST_UPDATED'' \<mapsto> PFloat 0)],
       device_types = [''kb'' \<mapsto> ''koalabear''],
       max_devices = [''koalabear'' \<mapsto> 1],
       device_counts = (map_of (map (\<lambda>(device_type, props). (device_type, 0)) default_device_properties))
          (''koalabear'' \<mapsto> 1)\<rparr>, Inr ())"
  by (simp add: check_property_def new_mock_robot_def default_device_properties_def Let_def)

lemma access_device_existing:
  assumes "devices r d = Some dev" and "device_types r d = Some ''koalabear''"
  shows "access_device t0 t1 r d name =
    (if dev name = None then (r, Inl ValueError) else update_koalabear t1 r d)"
  using assms by (simp add: access_device_def check_property_existing)

lemma set_velocity_out_of_bounds_stored:
  assumes "devices r d = Some dev" and "device_types r d = Some ''koalabear''"
    and "dev ''_LAST_UPDATED'' = Some lu"
    and "dev ''velocity_a'' = Some (PFloat va)" and "\<bar>va\<bar> \<le> 1"
    and "dev ''velocity_b'' = Some (PFloat vb)" and "\<bar>vb\<bar> \<le> 1"
    and "dev ''enc_a'' = Some ea" and "dev ''enc_b'' = Some eb"
  shows "set_value t0 t1 r d ''velocity_a'' (PFloat x) =
    (r\<lparr>devices := (devices r)(d \<mapsto> dev(''_LAST_UPDATED'' \<mapsto> PFloat t1,
              ''enc_a'' \<mapsto> PFloat (as_real ea + va * (as_real lu - t1) * 2000),
              ''enc_b'' \<mapsto> PFloat (as_real eb + vb * (as_real lu - t1) * 2000),
              ''velocity_a'' \<mapsto> PFloat x))\<rparr>, Inr ())"
proof -
  have u: "update_koalabear t1 r d =
      (r\<lparr>devices := (devices r)(d \<mapsto> dev(''_LAST_UPDATED'' \<mapsto> PFloat t1,
              ''enc_a'' \<mapsto> PFloat (as_real ea + va * (as_real lu - t1) * 2000),
              ''enc_b'' \<mapsto> PFloat (as_real eb + vb * (as_real lu - t1) * 2000)))\<rparr>, Inr ())"
    using update_koalabear_effect [OF assms(1) assms(3) assms(4) assms(6) assms(8) assms(9), of t1]
      assms(5) assms(7) by simp
  have a: "access_device t0 t1 r d ''velocity_a'' = update_koalabear t1 r d"
    using access_device_existing [OF assms(1) assms(2), of t0 t1 "''velocity_a''"] assms(4) by simp
  show ?thesis
    using assms(4) by (simp add: set_value_def a u)
qed

lemma access_out_of_bounds_raises:
  assumes "devices r d = Some dev" and "device_types r d = Some ''koalabear''"
    and "dev ''_LAST_UPDATED'' = Some lu"
    and "dev ''velocity_a'' = Some (PFloat x)" and "1 < \<bar>x\<bar>"
  shows "access_device t0 t1 r d name =
    (if dev name = None then (r, Inl ValueError)
     else (r\<lparr>devices := (devices r)(d \<mapsto> dev(''_LAST_UPDATED'' \<mapsto> PFloat t1))\<rparr>, Inl ValueError))"
proof -
  have "update_koalabear t1 r d =
      (r\<lparr>devices := (devices r)(d \<mapsto> dev(''_LAST_UPDATED'' \<mapsto> PFloat t1))\<rparr>, Inl ValueError)"
    using assms by (simp add: update_koalabear_def Let_def)
  then show ?thesis
    using access_device_existing [OF assms(1) assms(2), of t0 t1 name] by simp
qed

lemma next_access_raises:
  assumes "devices r' d = Some dev'" and "device_types r' d = Some ''koalabear''"
    and "dev' ''_LAST_UPDATED'' = Some lu"
    and "dev' ''velocity_a'' = Some (PFloat x)" and "1 < \<bar>x\<bar>"
  shows "\<exists>r''.
     (devices r'' d = Some dev' \<or> devices r'' d = Some (dev'(''_LAST_UPDATED'' \<mapsto> PFloat t3))) \<and>
     get_value t2 t3 r' d name = (r'', Inl ValueError) \<and>
     set_value t2 t3 r' d name w = (r'', Inl ValueError)"
proof (cases "dev' name = None")
  case True
  then have "access_device t2 t3 r' d name = (r', Inl ValueError)"
    using access_out_of_bounds_raises [OF assms, of t2 t3 name] by simp
  then have "get_value t2 t3 r' d name = (r', Inl ValueError)"
    and "set_value t2 t3 r' d name w = (r', Inl ValueError)"
    by (simp_all add: get_value_def set_value_def)
  with assms(1) show ?thesis by blast
next
  case False
  define r'' where "r'' = r'\<lparr>devices := (devices r')(d \<mapsto> dev'(''_LAST_UPDATED'' \<mapsto> PFloat t3))\<rparr>"
  from False have "access_device t2 t3 r' d name = (r'', Inl ValueError)"
    using access_out_of_bounds_raises [OF assms, of t2 t3 name] by (auto simp add: r''_def)
  then have "get_value t2 t3 r' d name = (r'', Inl ValueError)"
    and "set_value t2 t3 r' d name w = (r'', Inl ValueError)"
    by (simp_all add: get_value_def set_value_def)
  moreover have "devices r'' d = Some (dev'(''_LAST_UPDATED'' \<mapsto> PFloat t3))"
    by (simp add: r''_def)
  ultimately show ?thesis by blast
qed

text \<open>
  C6. The robot does not reject an out-of-bounds velocity at the \<open>set_value\<close> call that
  supplies it. On a koalabear device whose stored velocities are within \<open>[-1, 1]\<close>,
  \<open>set_value\<close> of \<open>velocity_a\<close> to a float \<open>x\<close> with \<open>1 < \<bar>x\<bar>\<close> (1.5 for one) returns
  normally and stores \<open>x\<close>, because the bound check runs on the values stored before the
  write. From then on every \<open>get_value\<close> and every \<open>set_value\<close> on the device raises
  \<open>ValueError\<close>, a write of an in-bounds velocity included, so the stored \<open>x\<close> stays; such a
  failing call changes at most the \<open>_LAST_UPDATED\<close> entry of the device.
\<close>

theorem out_of_bounds_velocity_deferred:
  assumes "devices r d = Some dev" and "device_types r d = Some ''koalabear''"
    and "dev ''_LAST_UPDATED'' = Some lu"
    and "dev ''velocity_a'' = Some (PFloat va)" and "\<bar>va\<bar> \<le> 1"
    and "dev ''velocity_b'' = Some (PFloat vb)" and "\<bar>vb\<bar> \<le> 1"
    and "dev ''enc_a'' = Some ea" and "dev ''enc_b'' = Some eb"
    and "1 < \<bar>x\<bar>"
  shows "\<exists>r' dev'. set_value t0 t1 r d ''velocity_a'' (PFloat x) = (r', Inr ()) \<and>
      devices r' d = Some dev' \<and> dev' ''velocity_a'' = Some (PFloat x) \<and>
      (\<forall>t2 t3 name v. \<exists>r''.
         (devices r'' d = Some dev' \<or> devices r'' d = Some (dev'(''_LAST_UPDATED'' \<mapsto> PFloat t3))) \<and>
         get_value t2 t3 r' d name = (r'', Inl ValueError) \<and>
         set_value t2 t3 r' d name v = (r'', Inl ValueError))"
proof -
  define dev' where "dev' = dev(''_LAST_UPDATED'' \<mapsto> PFloat t1,
              ''enc_a'' \<mapsto> PFloat (as_real ea + va * (as_real lu - t1) * 2000),
              ''enc_b'' \<mapsto> PFloat (as_real eb + vb * (as_real lu - t1) * 2000),
              ''velocity_a'' \<mapsto> PFloat x)"
  define r' where "r' = r\<lparr>devices := (devices r)(d \<mapsto> dev')\<rparr>"
  have s: "set_value t0 t1 r d ''velocity_a'' (PFloat x) = (r', Inr ())"
    unfolding r'_def dev'_def by (rule set_velocity_out_of_bounds_stored [OF assms(1-9)])
  have d: "devices r' d = Some dev'" and ty: "device_types r' d = Some ''koalabear''"
    using assms(2) by (simp_all add: r'_def)
  have lu: "dev' ''_LAST_UPDATED'' = Some (PFloat t1)" and v: "dev' ''velocity_a'' = Some (PFloat x)"
    by (simp_all add: dev'_def)
  show ?thesis
    using s d v next_access_raises [OF d ty lu v assms(10)] by blast
qed

theorem out_of_bounds_velocity_deferred_witness:
  "\<exists>r' dev'. set_value 0 0
       \<lparr>devices = [''kb'' \<mapsto> (map_of (snd (hd default_device_properties)))(''_LAST_UPDATED'' \<mapsto> PFloat 0)],
       device_types = [''kb'' \<mapsto> ''koalabear''],
       max_devices = [''koalabear'' \<mapsto> 1],
       device_counts = (map_of (map (\<lambda>(device_type, props). (device_type, 0)) default_device_properties))
          (''koalabear'' \<mapsto> 1)\<rparr>
       ''kb'' ''velocity_a'' (PFloat (3 / 2)) = (r', Inr ()) \<and>
      devices r' ''kb'' = Some dev' \<and> dev' ''velocity_a'' = Some (PFloat (3 / 2)) \<and>
      (\<forall>t2 t3 name v. \<exists>r''.
         (devices r'' ''kb'' = Some dev' \<or>
          devices r'' ''kb'' = Some (dev'(''_LAST_UPDATED'' \<mapsto> PFloat t3))) \<and>
         get_value t2 t3 r' ''kb'' name = (r'', Inl ValueError) \<and>
         set_value t2 t3 r' ''kb'' name v = (r'', Inl ValueError))"
proof -
  let ?dev = "(map_of (snd (hd default_device_properties)))(''_LAST_UPDATED'' \<mapsto> PFloat 0)"
  let ?r = "\<lparr>devices = [''kb'' \<mapsto> (map_of (snd (hd default_device_properties)))(''_LAST_UPDATED'' \<mapsto> PFloat 0)],
       device_types = [''kb'' \<mapsto> ''koalabear''],
       max_devices = [''koalabear'' \<mapsto> 1],
       device_counts = (map_of (map (\<lambda>(device_type, props). (device_type, 0)) default_device_properties))
          (''koalabear'' \<mapsto> 1)\<rparr>"
  have d: "devices ?r ''kb'' = Some ?dev" and ty: "device_types ?r ''kb'' = Some ''koalabear''"
    by simp_all
  have lu: "?dev ''_LAST_UPDATED'' = Some (PFloat 0)"
    by simp
  have va: "?dev ''velocity_a'' = Some (PFloat 0)" and vb: "?dev ''velocity_b'' = Some (PFloat 0)"
    and ea: "?dev ''enc_a'' = Some (PInt 0)" and eb: "?dev ''enc_b'' = Some (PInt 0)"
    by (simp_all add: default_device_properties_def)
  have b: "\<bar>0::real\<bar> \<le> 1" and x: "(1::real) < \<bar>3 / 2\<bar>"
    by simp_all
  show ?thesis
    by (rule out_of_bounds_velocity_deferred [OF d ty lu va b vb b ea eb x])
qed

theorem out_of_bounds_velocity_is_stored:
  "snd (set_value 0 0 (new_mock_robot [''koalabear'' \<mapsto> 1]) ''kb'' ''velocity_a''
          (PFloat (3 / 2))) = Inr () \<and>
   Option.bind (devices (fst (set_value 0 0 (new_mock_robot [''koalabear'' \<mapsto> 1]) ''kb''
          ''velocity_a'' (PFloat (3 / 2)))) ''kb'') (\<lambda>device. device ''velocity_a'') =
     Some (PFloat (3 / 2))"
  by (simp add: set_value_def access_device_def check_property_def
      update_koalabear_def new_mock_robot_def default_device_properties_def
      motor_ticks_per_sec_def Let_def)

text \<open>
  C8. The update computes \<open>dt\<close> as the last reading minus the new one, so a positive
  velocity moves the encoder backwards as time passes (\<open>update_koalabear_effect\<close>). On a
  new robot, after \<open>velocity_a\<close> is set to 1.0 at time 0, reading \<open>enc_a\<close> at time 1 gives
  \<open>- 2000\<close>, where the claim has \<open>+ 2000\<close> and a non-decreasing reading.
\<close>

theorem encoder_runs_backwards:
  "snd (get_value 1 1 (fst (set_value 0 0 (new_mock_robot [''koalabear'' \<mapsto> 1])
          ''kb'' ''velocity_a'' (PFloat 1))) ''kb'' ''enc_a'') = Inr (PFloat (- 2000))"
  by (simp add: get_value_def set_value_def access_device_def check_property_def
      update_koalabear_def new_mock_robot_def default_device_properties_def
      motor_ticks_per_sec_def Let_def)

end
